theory Spec2Isabelle
  imports Main "HOL-Library.Word"
begin

section \<open>client/rpcserver/types.go: parsing command arguments\<close>

text \<open>
  A Go call either returns or panics (an index out of range, a call through a nil
  function value). Every slice access of the source goes through \<open>index\<close>, so a
  read beyond the length is the value \<open>Panic\<close> of the model.
\<close>

datatype 'a outcome = Panic | Return 'a

fun obind :: "'a outcome \<Rightarrow> ('a \<Rightarrow> 'b outcome) \<Rightarrow> 'b outcome" where
  "obind Panic f = Panic"
| "obind (Return x) f = f x"

definition index :: "'a list \<Rightarrow> nat \<Rightarrow> 'a outcome" where
  "index xs i = (if i < length xs then Return (xs ! i) else Panic)"

text \<open>
  The route-name constants are declared outside the two source files; the tables
  \<open>nArgs\<close> and \<open>parsers\<close> are keyed by them. A command string is resolved to the
  constant it equals, if any, by a function \<open>routeOf\<close> that every operation below
  takes as an argument.
\<close>

datatype route =
    helpRoute | initRoute | versionRoute | preRegisterRoute | newWalletRoute
  | openWalletRoute | closeWalletRoute | walletsRoute | registerRoute

text \<open>The two sentinel errors, and the errors built by \<open>fmt.Errorf\<close>.\<close>

datatype sentinel = ErrArgs | ErrUnknownCmd

datatype error =
    UnknownCmd string              \<comment> \<open>\<open>"%w: %s", ErrUnknownCmd, cmd\<close>\<close>
  | WantedButGot int int           \<comment> \<open>\<open>"%w: wanted %d but got %d", ErrArgs, want[0], have\<close>\<close>
  | WantedBetween int int int      \<comment> \<open>\<open>"%w: wanted between %d and %d but got %d", ErrArgs, ...\<close>\<close>
  | MustBeInteger string string    \<comment> \<open>\<open>"%w, %s must be an integer: %v", ErrArgs, name, err\<close>\<close>
  | ErrorReading string string     \<comment> \<open>\<open>"error reading %s: %v", args[1], err\<close>\<close>

fun unwrap :: "error \<Rightarrow> sentinel option" where
  "unwrap (UnknownCmd _) = Some ErrUnknownCmd"
| "unwrap (WantedButGot _ _) = Some ErrArgs"
| "unwrap (WantedBetween _ _ _) = Some ErrArgs"
| "unwrap (MustBeInteger _ _) = Some ErrArgs"
| "unwrap (ErrorReading _ _) = None"

record openWalletForm =
  ow_AssetID :: "32 word"
  ow_AppPass :: string

record newWalletForm =
  nw_AssetID :: "32 word"
  nw_Account :: string
  nw_INIPath :: string
  nw_WalletPass :: string
  nw_AppPass :: string

record Registration =
  reg_Password :: string
  reg_URL :: string
  reg_Fee :: "64 word"
  reg_Cert :: string

record PreRegisterForm =
  pre_URL :: string
  pre_Cert :: string

text \<open>The values a parser returns as \<open>interface{}\<close>.\<close>

datatype parsed =
    NilVal
  | Str string
  | IntVal int
  | NewWallet newWalletForm
  | OpenWallet openWalletForm
  | Register Registration
  | PreRegister PreRegisterForm

text \<open>
  A Go result pair \<open>(value, error)\<close>. \<open>strconv.Atoi\<close> and \<open>ioutil.ReadFile\<close> belong
  to the standard library: they are arguments \<open>atoi\<close> and \<open>readFile\<close> of the model,
  each returning its value and its error, if any.
\<close>

type_synonym 'a result = "'a \<times> error option"
type_synonym Atoi = "string \<Rightarrow> int \<times> string option"
type_synonym ReadFile = "string \<Rightarrow> string \<times> string option"

definition checkNArgs :: "int \<Rightarrow> int list \<Rightarrow> error option outcome" where
  "checkNArgs have want =
     (if length want = 1 then
        obind (index want 0) (\<lambda>w0.
          if w0 \<noteq> have then Return (Some (WantedButGot w0 have)) else Return None)
      else
        obind (index want 0) (\<lambda>w0.
        obind (index want 1) (\<lambda>w1.
          if have < w0 \<or> have > w1 then Return (Some (WantedBetween w0 w1 have))
          else Return None)))"

definition checkIntArg :: "Atoi \<Rightarrow> string \<Rightarrow> string \<Rightarrow> int result" where
  "checkIntArg atoi arg name =
     (case atoi arg of
        (i, Some err) \<Rightarrow> (i, Some (MustBeInteger name err))
      | (i, None) \<Rightarrow> (i, None))"

definition parseHelpArgs :: "string list \<Rightarrow> parsed result outcome" where
  "parseHelpArgs args =
     (if length args = 0 then Return (NilVal, None)
      else obind (index args 0) (\<lambda>a0. Return (Str a0, None)))"

definition parseNewWalletArgs :: "Atoi \<Rightarrow> string list \<Rightarrow> parsed result outcome" where
  "parseNewWalletArgs atoi args =
     obind (index args 2) (\<lambda>a2.
       case checkIntArg atoi a2 ''assetID'' of
         (_, Some err) \<Rightarrow> Return (NilVal, Some err)
       | (assetID, None) \<Rightarrow>
           obind (index args 0) (\<lambda>a0.
           obind (index args 1) (\<lambda>a1.
           obind (index args 3) (\<lambda>a3.
           obind (index args 4) (\<lambda>a4.
             Return (NewWallet \<lparr>nw_AssetID = word_of_int assetID, nw_Account = a3,
                       nw_INIPath = a4, nw_WalletPass = a1, nw_AppPass = a0\<rparr>, None))))))"

definition parseOpenWalletArgs :: "Atoi \<Rightarrow> string list \<Rightarrow> parsed result outcome" where
  "parseOpenWalletArgs atoi args =
     obind (index args 1) (\<lambda>a1.
       case checkIntArg atoi a1 ''assetID'' of
         (_, Some err) \<Rightarrow> Return (NilVal, Some err)
       | (assetID, None) \<Rightarrow>
           obind (index args 0) (\<lambda>a0.
             Return (OpenWallet \<lparr>ow_AssetID = word_of_int assetID, ow_AppPass = a0\<rparr>, None)))"

definition parseRegisterArgs :: "Atoi \<Rightarrow> ReadFile \<Rightarrow> string list \<Rightarrow> parsed result outcome" where
  "parseRegisterArgs atoi readFile args =
     obind (index args 2) (\<lambda>a2.
       case checkIntArg atoi a2 ''fee'' of
         (_, Some err) \<Rightarrow> Return (NilVal, Some err)
       | (fee, None) \<Rightarrow>
           obind
             (if length args = 4 then
                obind (index args 3) (\<lambda>a3.
                  case readFile a3 of
                    (_, Some err) \<Rightarrow>
                      obind (index args 1) (\<lambda>a1. Return (Inl (ErrorReading a1 err)))
                  | (certB, None) \<Rightarrow> Return (Inr certB))
              else Return (Inr []))
             (\<lambda>c. case c of
                Inl err \<Rightarrow> Return (NilVal, Some err)
              | Inr cert \<Rightarrow>
                  obind (index args 0) (\<lambda>a0.
                  obind (index args 1) (\<lambda>a1.
                    Return (Register \<lparr>reg_Password = a0, reg_URL = a1,
                              reg_Fee = word_of_int fee, reg_Cert = cert\<rparr>, None)))))"

definition parsePreRegisterArgs :: "ReadFile \<Rightarrow> string list \<Rightarrow> parsed result outcome" where
  "parsePreRegisterArgs readFile args =
     obind
       (if length args > 1 then
          obind (index args 1) (\<lambda>a1.
            case readFile a1 of
              (_, Some err) \<Rightarrow>
                obind (index args 1) (\<lambda>a1'. Return (Inl (ErrorReading a1' err)))
            | (certB, None) \<Rightarrow> Return (Inr certB))
        else Return (Inr []))
       (\<lambda>c. case c of
          Inl err \<Rightarrow> Return (NilVal, Some err)
        | Inr cert \<Rightarrow>
            obind (index args 0) (\<lambda>a0.
              Return (PreRegister \<lparr>pre_URL = a0, pre_Cert = cert\<rparr>, None)))"

text \<open>
  \<open>nArgs\<close>: one integer is an exact count, two are the minimum and the maximum.
\<close>

fun nArgs :: "route \<Rightarrow> int list" where
  "nArgs helpRoute = [0, 1]"
| "nArgs initRoute = [1]"
| "nArgs versionRoute = [0]"
| "nArgs preRegisterRoute = [1, 2]"
| "nArgs newWalletRoute = [5]"
| "nArgs openWalletRoute = [2]"
| "nArgs closeWalletRoute = [1]"
| "nArgs walletsRoute = [0]"
| "nArgs registerRoute = [3, 4]"

fun parsers :: "Atoi \<Rightarrow> ReadFile \<Rightarrow> route \<Rightarrow> string list \<Rightarrow> parsed result outcome" where
  "parsers atoi readFile helpRoute args = parseHelpArgs args"
| "parsers atoi readFile initRoute args =
     obind (index args 0) (\<lambda>a0. Return (Str a0, None))"
| "parsers atoi readFile versionRoute args = Return (NilVal, None)"
| "parsers atoi readFile preRegisterRoute args = parsePreRegisterArgs readFile args"
| "parsers atoi readFile newWalletRoute args = parseNewWalletArgs atoi args"
| "parsers atoi readFile openWalletRoute args = parseOpenWalletArgs atoi args"
| "parsers atoi readFile closeWalletRoute args =
     obind (index args 0) (\<lambda>a0.
       case checkIntArg atoi a0 ''assetID'' of (i, err) \<Rightarrow> Return (IntVal i, err))"
| "parsers atoi readFile walletsRoute args = Return (NilVal, None)"
| "parsers atoi readFile registerRoute args = parseRegisterArgs atoi readFile args"

definition ParseCmdArgs ::
  "(string \<Rightarrow> route option) \<Rightarrow> Atoi \<Rightarrow> ReadFile \<Rightarrow> string \<Rightarrow> string list
     \<Rightarrow> parsed result outcome" where
  "ParseCmdArgs routeOf atoi readFile cmd args =
     (case routeOf cmd of
        None \<Rightarrow> Return (NilVal, Some (UnknownCmd cmd))
      | Some r \<Rightarrow>
          obind (checkNArgs (int (length args)) (nArgs r)) (\<lambda>e.
            case e of
              Some err \<Rightarrow> Return (NilVal, Some err)
            | None \<Rightarrow> parsers atoi readFile r args))"

text \<open>
  The count a command allows, read off its \<open>nArgs\<close> entry the way the table's comment
  describes it: exactly \<open>k\<close> for \<open>[k]\<close>, between \<open>lo\<close> and \<open>hi\<close> for \<open>[lo, hi]\<close>.
\<close>

fun allowed :: "int list \<Rightarrow> int \<Rightarrow> bool" where
  "allowed [k] n = (n = k)"
| "allowed [lo, hi] n = (lo \<le> n \<and> n \<le> hi)"
| "allowed _ n = False"

fun countError :: "error \<Rightarrow> bool" where
  "countError (WantedButGot _ _) = True"
| "countError (WantedBetween _ _ _) = True"
| "countError _ = False"


section \<open>msgjson: the message envelope\<close>

text \<open>
  The envelope codec is a package outside the two source files. Its types are modelled
  by their fields as \<open>rpcserver.go\<close> uses them. Encoded JSON is modelled by the value
  it encodes: the payload of a Response is the \<open>ResponsePayload\<close> itself.
\<close>

datatype MessageType = InvalidMessageType | Request | Response | Notification

record 'p Message =
  Type :: MessageType
  Route :: string
  ID :: "64 word"
  Payload :: 'p

text \<open>
  Modelled from the spec: the error codes are constants of the codec, which is not in
  the source files; section 6 of the specification describes them as a fixed
  enumerated error-code space with an unknown-route and a parse-error member.
\<close>

datatype ErrorCode = RPCUnknownRoute | RPCParseError | RPCOther int

record Error =
  Code :: ErrorCode
  Message :: string

definition NewError :: "ErrorCode \<Rightarrow> string \<Rightarrow> Error" where
  "NewError code msg = \<lparr>Code = code, Message = msg\<rparr>"

record 'r ResponsePayload =
  Result :: "'r option"
  Error :: "Error option"

text \<open>
  Modelled from the spec: \<open>msgjson.NewResponse\<close> is not in the source files. Section 6
  of the specification gives a Response the shape
  \<open>{id: uint64>0, type: 2, payload: {result?, error?}}\<close> and section 3 reserves the
  identifier 0, so no Response is built for the identifier 0: the constructor returns
  an error, which \<open>parseHTTPRequest\<close> handles in a branch of its own.
\<close>

definition NewResponse ::
  "64 word \<Rightarrow> 'r option \<Rightarrow> Error option \<Rightarrow> string + ('r ResponsePayload) Message" where
  "NewResponse ident result rpcErr =
     (if ident = 0 then Inl ''id = 0 not allowed for a response''
      else Inr \<lparr>Type = Response, Route = [], ID = ident,
                Payload = \<lparr>Result = result, Error = rpcErr\<rparr>\<rparr>)"

section \<open>net/http: the response writer and the request\<close>

text \<open>
  What a handler writes: header fields, the status line (the first \<open>WriteHeader\<close>
  wins) and the chunks of the body, either plain text or an encoded envelope.
\<close>

datatype 'r chunk = Text string | JSON "('r ResponsePayload) Message"

record 'r ResponseWriter =
  Header :: "string \<rightharpoonup> string"
  Status :: "nat option"
  Body :: "'r chunk list"

record HttpRequest =
  reqHeader :: "string \<rightharpoonup> string list"
  RemoteAddr :: string
  reqBody :: "string option"     \<comment> \<open>what \<open>ioutil.ReadAll(r.Body)\<close> yields; \<open>None\<close> is a read error\<close>
  Close :: bool

definition StatusOK :: nat where "StatusOK = 200"
definition StatusBadRequest :: nat where "StatusBadRequest = 400"
definition StatusUnauthorized :: nat where "StatusUnauthorized = 401"
definition StatusMethodNotAllowed :: nat where "StatusMethodNotAllowed = 405"
definition StatusUnprocessableEntity :: nat where "StatusUnprocessableEntity = 422"
definition StatusInternalServerError :: nat where "StatusInternalServerError = 500"

definition WriteHeader :: "'r ResponseWriter \<Rightarrow> nat \<Rightarrow> 'r ResponseWriter" where
  "WriteHeader w code = (if Status w = None then w\<lparr>Status := Some code\<rparr> else w)"

definition SetHeader :: "'r ResponseWriter \<Rightarrow> string \<Rightarrow> string \<Rightarrow> 'r ResponseWriter" where
  "SetHeader w k v = w\<lparr>Header := (Header w)(k \<mapsto> v)\<rparr>"

definition Write :: "'r ResponseWriter \<Rightarrow> 'r chunk \<Rightarrow> 'r ResponseWriter" where
  "Write w c = (WriteHeader w StatusOK)\<lparr>Body := Body w @ [c]\<rparr>"

text \<open>\<open>http.Error\<close>: a plain-text reply with the given status.\<close>

definition http_Error :: "'r ResponseWriter \<Rightarrow> string \<Rightarrow> nat \<Rightarrow> 'r ResponseWriter" where
  "http_Error w msg code =
     Write (WriteHeader
       (SetHeader (SetHeader w ''Content-Type'' ''text/plain; charset=utf-8'')
          ''X-Content-Type-Options'' ''nosniff'') code) (Text msg)"

section \<open>client/rpcserver/rpcserver.go: the gateway\<close>

definition writeJSONWithStatus ::
  "'r ResponseWriter \<Rightarrow> ('r ResponsePayload) Message \<Rightarrow> nat \<Rightarrow> 'r ResponseWriter" where
  "writeJSONWithStatus w thing code =
     Write (WriteHeader (SetHeader w ''Content-Type'' ''application/json; charset=utf-8'') code)
       (JSON thing)"

definition writeJSON ::
  "'r ResponseWriter \<Rightarrow> ('r ResponsePayload) Message \<Rightarrow> 'r ResponseWriter" where
  "writeJSON w thing = writeJSONWithStatus w thing StatusOK"

text \<open>
  The route table \<open>routes\<close> and the type \<open>RawParams\<close> are declared outside the source
  files: the table is an argument, a map from route names to handlers, and
  \<open>req.Unmarshal(params)\<close> is an argument \<open>unmarshal\<close> that yields the decoded
  parameters or fails. A handler takes the server and the parameters and returns a
  response payload.
\<close>

type_synonym ('s, 'a, 'r) handler = "'s \<Rightarrow> 'a \<Rightarrow> 'r ResponsePayload"

definition handleRequest ::
  "(string \<rightharpoonup> ('s, 'a, 'r) handler) \<Rightarrow> ('p Message \<Rightarrow> 'a option) \<Rightarrow> 's \<Rightarrow> 'p Message
     \<Rightarrow> 'r ResponsePayload" where
  "handleRequest routes unmarshal s req =
     (if Route req = [] then
        \<lparr>Result = None, Error = Some (NewError RPCUnknownRoute ''no route was supplied'')\<rparr>
      else
        case routes (Route req) of
          None \<Rightarrow> \<lparr>Result = None, Error = Some (NewError RPCUnknownRoute ''unknown command'')\<rparr>
        | Some h \<Rightarrow>
            (case unmarshal req of
               None \<Rightarrow>
                 \<lparr>Result = None,
                  Error = Some (NewError RPCParseError ''unable to unmarshal request'')\<rparr>
             | Some params \<Rightarrow> h s params))"

definition parseHTTPRequest ::
  "(string \<rightharpoonup> ('s, 'a, 'r) handler) \<Rightarrow> ('p Message \<Rightarrow> 'a option) \<Rightarrow> 's
     \<Rightarrow> 'r ResponseWriter \<Rightarrow> 'p Message \<Rightarrow> 'r ResponseWriter" where
  "parseHTTPRequest routes unmarshal s w req =
     (let payload = handleRequest routes unmarshal s req in
      case NewResponse (ID req) (Result payload) (Error payload) of
        Inl err \<Rightarrow>
          http_Error w (''error encoding response: '' @ err) StatusInternalServerError
      | Inr resp \<Rightarrow> writeJSON w resp)"

text \<open>
  \<open>handleJSON\<close>: \<open>json.Unmarshal(body, req)\<close> is the argument \<open>jsonUnmarshal\<close>. The
  request comes back with its \<open>Close\<close> flag set.
\<close>

definition handleJSON ::
  "(string \<rightharpoonup> ('s, 'a, 'r) handler) \<Rightarrow> ('p Message \<Rightarrow> 'a option)
     \<Rightarrow> (string \<Rightarrow> 'p Message option) \<Rightarrow> 's \<Rightarrow> 'r ResponseWriter \<Rightarrow> HttpRequest
     \<Rightarrow> 'r ResponseWriter \<times> HttpRequest" where
  "handleJSON routes unmarshal jsonUnmarshal s w r =
     (let w1 = SetHeader (SetHeader w ''Connection'' ''close'') ''Content-Type'' ''application/json'';
          r1 = r\<lparr>Close := True\<rparr>
      in case reqBody r1 of
           None \<Rightarrow> (http_Error w1 ''error reading request body'' StatusBadRequest, r1)
         | Some body \<Rightarrow>
             (case jsonUnmarshal body of
                None \<Rightarrow> (http_Error w1 ''JSON decode error'' StatusUnprocessableEntity, r1)
              | Some req \<Rightarrow>
                  if Type req \<noteq> Request then
                    (http_Error w1 ''Responses not accepted'' StatusMethodNotAllowed, r1)
                  else (parseHTTPRequest routes unmarshal s w1 req, r1)))"




text \<open>
  Modelled from the spec: the WebSocket endpoint of the gateway is not in the source
  files. By the data flow of section 2 and the dispatch rule of section 4.2, a Request
  frame of a session goes through the same route lookup and handler as an HTTP request,
  and the response payload is encoded as a Response envelope and written to the
  session. \<open>wsRequest\<close> gives the frame written to the session, or the error when no
  Response can be built.
\<close>

definition wsRequest ::
  "(string \<rightharpoonup> ('s, 'a, 'r) handler) \<Rightarrow> ('p Message \<Rightarrow> 'a option) \<Rightarrow> 's \<Rightarrow> 'p Message
     \<Rightarrow> string + ('r ResponsePayload) Message" where
  "wsRequest routes unmarshal s req =
     (let payload = handleRequest routes unmarshal s req in
      NewResponse (ID req) (Result payload) (Error payload))"


section \<open>Files, certificates and the constructor \<open>New\<close>\<close>

text \<open>
  The file system: a path holds a file (its bytes and its permission bits), or is
  absent, or cannot be reached (\<open>os.Stat\<close> fails there with an error other than
  "does not exist").
\<close>

record osFile =
  contents :: string
  perm :: nat

datatype node = File osFile | Unreachable

type_synonym fs = "string \<rightharpoonup> node"

datatype stat_error = ErrNotExist | ErrPermission

definition os_Stat :: "fs \<Rightarrow> string \<Rightarrow> stat_error option" where
  "os_Stat fsys name =
     (case fsys name of
        None \<Rightarrow> Some ErrNotExist
      | Some Unreachable \<Rightarrow> Some ErrPermission
      | Some (File f) \<Rightarrow> None)"

fun IsNotExist :: "stat_error option \<Rightarrow> bool" where
  "IsNotExist (Some ErrNotExist) = True"
| "IsNotExist _ = False"

definition fileExists :: "fs \<Rightarrow> string \<Rightarrow> bool" where
  "fileExists fsys name = (let err = os_Stat fsys name in \<not> IsNotExist err)"

text \<open>The permission bits \<open>0644\<close> and \<open>0600\<close> of the source, written in octal there.\<close>

definition perm_0644 :: nat where "perm_0644 = 6 * 64 + 4 * 8 + 4"
definition perm_0600 :: nat where "perm_0600 = 6 * 64 + 0 * 8 + 0"


datatype curve = P224 | P256 | P384 | P521

text \<open>
  What the standard library and \<open>certgen\<close> do is given by a record of functions:
  the certificate generator, the clock (in nanoseconds), the paths where creating a
  file fails, the parser of a PEM pair, SHA-256 and base64.
\<close>

record 'k extern =
  NewTLSCertPair :: "curve \<Rightarrow> string \<Rightarrow> int \<Rightarrow> string list \<Rightarrow> string + (string \<times> string)"
  Now :: int
  createFails :: "string \<Rightarrow> bool"
  X509KeyPair :: "string \<Rightarrow> string \<Rightarrow> string + 'k"
  Sum256 :: "string \<Rightarrow> 8 word list"
  EncodeToString :: "string \<Rightarrow> string"

definition Hour :: int where "Hour = 3600 * 1000000000"

text \<open>
  \<open>ioutil.WriteFile\<close> creates the file with the given permission bits when it does
  not exist, and otherwise truncates it, keeping the bits it has. A write that fails
  leaves the file system as it was.
\<close>

definition WriteFile :: "'k extern \<Rightarrow> fs \<Rightarrow> string \<Rightarrow> string \<Rightarrow> nat \<Rightarrow> string option \<times> fs" where
  "WriteFile ext fsys name bytes mode =
     (case fsys name of
        Some Unreachable \<Rightarrow> (Some ''permission denied'', fsys)
      | Some (File f) \<Rightarrow> (None, fsys(name \<mapsto> File (f\<lparr>contents := bytes\<rparr>)))
      | None \<Rightarrow>
          if createFails ext name then (Some ''cannot create file'', fsys)
          else (None, fsys(name \<mapsto> File \<lparr>contents = bytes, perm = mode\<rparr>)))"

definition os_Remove :: "fs \<Rightarrow> string \<Rightarrow> fs" where
  "os_Remove fsys name = (case fsys name of Some (File f) \<Rightarrow> fsys(name := None) | _ \<Rightarrow> fsys)"

definition ReadFile :: "fs \<Rightarrow> string \<Rightarrow> string + string" where
  "ReadFile fsys name =
     (case fsys name of Some (File f) \<Rightarrow> Inr (contents f) | _ \<Rightarrow> Inl ''cannot read file'')"

definition genCertPair :: "'k extern \<Rightarrow> fs \<Rightarrow> string \<Rightarrow> string \<Rightarrow> string option \<times> fs" where
  "genCertPair ext fsys certFile keyFile =
     (let org = ''dcrdex autogenerated cert'';
          validUntil = Now ext + 10 * 365 * 24 * Hour
      in case NewTLSCertPair ext P521 org validUntil [] of
           Inl err \<Rightarrow> (Some err, fsys)
         | Inr (cert, key) \<Rightarrow>
             (case WriteFile ext fsys certFile cert perm_0644 of
                (Some err, fs1) \<Rightarrow> (Some err, fs1)
              | (None, fs1) \<Rightarrow>
                  (case WriteFile ext fs1 keyFile key perm_0600 of
                     (Some err, fs2) \<Rightarrow> (Some err, os_Remove fs2 certFile)
                   | (None, fs2) \<Rightarrow> (None, fs2))))"

definition LoadX509KeyPair :: "'k extern \<Rightarrow> fs \<Rightarrow> string \<Rightarrow> string \<Rightarrow> string + 'k" where
  "LoadX509KeyPair ext fsys certFile keyFile =
     (case ReadFile fsys certFile of
        Inl err \<Rightarrow> Inl err
      | Inr certPEM \<Rightarrow>
          (case ReadFile fsys keyFile of
             Inl err \<Rightarrow> Inl err
           | Inr keyPEM \<Rightarrow> X509KeyPair ext certPEM keyPEM))"

datatype tlsVersion = VersionTLS10 | VersionTLS11 | VersionTLS12 | VersionTLS13

record 'k tlsConfig =
  Certificates :: "'k list"
  MinVersion :: tlsVersion

record 'c Config =
  Core :: 'c
  Addr :: string
  User :: string
  Pass :: string
  Cert :: string
  Key :: string

text \<open>
  The server. \<open>authsha\<close> is a \<open>[32]byte\<close>, whose zero value is 32 zero bytes; the two
  maps hold handles of the syncers and of the clients.
\<close>

record ('c, 'k) RPCServer =
  core :: 'c
  addr :: string
  tlsConfig :: "'k tlsConfig"
  authsha :: "8 word list"
  syncers :: "string \<rightharpoonup> nat"
  clients :: "32 word \<rightharpoonup> nat"

definition zeroSha :: "8 word list" where
  "zeroSha = replicate 32 0"

definition New :: "'k extern \<Rightarrow> fs \<Rightarrow> 'c Config \<Rightarrow> (string + ('c, 'k) RPCServer) \<times> fs" where
  "New ext fsys cfg =
     (let keyExists = fileExists fsys (Key cfg);
          certExists = fileExists fsys (Cert cfg)
      in if certExists = (\<not> keyExists) then (Inl ''missing cert pair file'', fsys)
         else
           case (if \<not> keyExists \<and> \<not> certExists then genCertPair ext fsys (Cert cfg) (Key cfg)
                 else (None, fsys)) of
             (Some err, fs1) \<Rightarrow> (Inl err, fs1)
           | (None, fs1) \<Rightarrow>
               (case LoadX509KeyPair ext fs1 (Cert cfg) (Key cfg) of
                  Inl err \<Rightarrow> (Inl err, fs1)
                | Inr keypair \<Rightarrow>
                    (Inr \<lparr>core = Core cfg, addr = Addr cfg,
                          tlsConfig = \<lparr>Certificates = [keypair], MinVersion = VersionTLS12\<rparr>,
                          authsha =
                            (if User cfg \<noteq> [] \<and> Pass cfg \<noteq> [] then
                               Sum256 ext (''Basic '' @
                                 EncodeToString ext (User cfg @ '':'' @ Pass cfg))
                             else zeroSha),
                          syncers = Map.empty, clients = Map.empty\<rparr>, fs1)))"

text \<open>
  \<open>authMiddleware\<close>: a request passes to the next handler only when it has an
  \<open>Authorization\<close> header whose SHA-256 is the server's \<open>authsha\<close>.
\<close>

definition authMiddleware ::
  "'k extern \<Rightarrow> ('c, 'k) RPCServer
     \<Rightarrow> ('r ResponseWriter \<Rightarrow> HttpRequest \<Rightarrow> 'r ResponseWriter \<times> HttpRequest)
     \<Rightarrow> 'r ResponseWriter \<Rightarrow> HttpRequest \<Rightarrow> 'r ResponseWriter \<times> HttpRequest" where
  \<open>authMiddleware ext s next w r =
     (let auth = (case reqHeader r ''Authorization'' of None \<Rightarrow> [] | Some vs \<Rightarrow> vs);
          reject =
            (http_Error (SetHeader w ''WWW-Authenticate'' ''Basic realm="dex RPC"'')
               ''Unauthorized'' StatusUnauthorized, r)
      in case auth of
           [] \<Rightarrow> reject
         | a0 # _ \<Rightarrow> if authsha s \<noteq> Sum256 ext a0 then reject else next w r)\<close>

section \<open>The market syncer\<close>

text \<open>
  One run of \<open>marketSyncer.Run\<close> is driven by what its \<open>select\<close> yields, turn after
  turn: a value received from the feed's channel with the result the client's \<open>Send\<close>
  will have, or the cancellation of the context. The element type of the channel is
  declared outside the source files; a received value is \<open>None\<close> when it is a nil
  pointer (what a closed channel of pointers yields), and reading its \<open>Action\<close> field
  then panics. \<open>msgjson.NewNotification(update.Action, update)\<close> is the argument
  \<open>newNotification\<close>. When the events run out before the loop ends, the syncer is
  still blocked in its \<open>select\<close>.
\<close>

datatype 'u event = Update "'u option" bool | CtxDone

datatype 'n action = Send 'n | Log string | FeedClose

datatype status = Blocked | Returned | Panicked

fun syncLoop :: "('u \<Rightarrow> string + 'n) \<Rightarrow> 'u event list \<Rightarrow> status \<times> 'n action list" where
  "syncLoop newNotification [] = (Blocked, [])"
| "syncLoop newNotification (CtxDone # es) = (Returned, [])"
| "syncLoop newNotification (Update None sendOk # es) = (Panicked, [])"
| "syncLoop newNotification (Update (Some update) sendOk # es) =
     (case newNotification update of
        Inl err \<Rightarrow> (Returned, [Log (''error encoding notification message: '' @ err)])
      | Inr note \<Rightarrow>
          if \<not> sendOk then (Returned, [Send note, Log ''send error. ending market feed''])
          else (case syncLoop newNotification es of (st, acts) \<Rightarrow> (st, Send note # acts)))"

text \<open>
  \<open>defer m.feed.Close()\<close>: the call runs when \<open>Run\<close> leaves, by a return or by a
  panic, and only then.
\<close>

definition Run :: "('u \<Rightarrow> string + 'n) \<Rightarrow> 'u event list \<Rightarrow> status \<times> 'n action list" where
  "Run newNotification es =
     (case syncLoop newNotification es of
        (Blocked, acts) \<Rightarrow> (Blocked, acts)
      | (st, acts) \<Rightarrow> (st, acts @ [FeedClose]))"

section \<open>The reconnecting transport\<close>

text \<open>
  Modelled from the spec: the transport (\<open>wsConn\<close> with \<open>NextID\<close>, the read pump, the
  pending table and the message source) is not in the source files, which hold only
  its test. Sections 3 and 4.1 of the specification describe it. The identifier
  generator is a 64-bit counter that starts at 1: a call adds one to the counter and
  returns the new value.
\<close>

record ('h, 'p) wsConn =
  rID :: "64 word"
  connected :: bool
  respHandlers :: "64 word \<rightharpoonup> 'h"
  readCh :: "'p Message list"
  handled :: "('h \<times> 'p Message) list"
  dropped :: "string list"

definition NextID :: "('h, 'p) wsConn \<Rightarrow> 64 word \<times> ('h, 'p) wsConn" where
  "NextID c = (rID c + 1, c\<lparr>rID := rID c + 1\<rparr>)"

text \<open>\<open>n\<close> calls in a row: the identifiers in the order of the calls.\<close>

fun callNextID :: "nat \<Rightarrow> ('h, 'p) wsConn \<Rightarrow> 64 word list \<times> ('h, 'p) wsConn" where
  "callNextID 0 c = ([], c)"
| "callNextID (Suc n) c =
     (case NextID c of (i, c1) \<Rightarrow> (case callNextID n c1 of (is, c2) \<Rightarrow> (i # is, c2)))"

text \<open>
  Modelled from the spec: the read pump (section 4.1). A frame that fails to parse as a
  valid envelope is logged and dropped. A Response is matched by identifier against
  the pending table and, if found, removed from it and delivered to its handler; an
  unmatched Response is dropped. A Request or a Notification is delivered to the
  message-source stream. Parsing a frame is the argument \<open>decode\<close>. Only a read error
  ends the loop and takes the connection down.
\<close>

datatype rx = Frame string | ReadError

definition readFrame ::
  "(string \<Rightarrow> 'p Message option) \<Rightarrow> ('h, 'p) wsConn \<Rightarrow> string \<Rightarrow> ('h, 'p) wsConn" where
  "readFrame decode c frame =
     (case decode frame of
        None \<Rightarrow> c\<lparr>dropped := dropped c @ [frame]\<rparr>
      | Some msg \<Rightarrow>
          (case Type msg of
             Response \<Rightarrow>
               (case respHandlers c (ID msg) of
                  None \<Rightarrow> c
                | Some h \<Rightarrow>
                    c\<lparr>respHandlers := (respHandlers c)(ID msg := None),
                      handled := handled c @ [(h, msg)]\<rparr>)
           | InvalidMessageType \<Rightarrow> c\<lparr>dropped := dropped c @ [frame]\<rparr>
           | _ \<Rightarrow> c\<lparr>readCh := readCh c @ [msg]\<rparr>))"

fun readPump ::
  "(string \<Rightarrow> 'p Message option) \<Rightarrow> ('h, 'p) wsConn \<Rightarrow> rx list \<Rightarrow> ('h, 'p) wsConn" where
  "readPump decode c [] = c"
| "readPump decode c (ReadError # rest) = c\<lparr>connected := False\<rparr>"
| "readPump decode c (Frame frame # rest) = readPump decode (readFrame decode c frame) rest"

text \<open>
  The events that end the loop when it reaches them: the cancellation of the context, a
  nil value (the feed's channel is closed), a value that fails to encode, and a value
  whose \<open>Send\<close> fails.
\<close>

fun terminal :: "('u \<Rightarrow> string + 'n) \<Rightarrow> 'u event \<Rightarrow> bool" where
  "terminal newNotification CtxDone = True"
| "terminal newNotification (Update None sendOk) = True"
| "terminal newNotification (Update (Some update) sendOk) =
     (case newNotification update of Inl err \<Rightarrow> True | Inr note \<Rightarrow> \<not> sendOk)"


section \<open>Properties of \<open>ParseCmdArgs\<close>\<close>

lemma checkNArgs_rejects:
  "\<not> allowed (nArgs r) n \<Longrightarrow>
     \<exists>e. checkNArgs n (nArgs r) = Return (Some e) \<and> countError e \<and> unwrap e = Some ErrArgs"
  by (cases r) (auto simp: checkNArgs_def index_def)

lemma checkNArgs_accepts:
  "allowed (nArgs r) n \<Longrightarrow> checkNArgs n (nArgs r) = Return None"
  by (cases r) (auto simp: checkNArgs_def index_def)

lemma parsers_no_panic:
  "allowed (nArgs r) (int (length args)) \<Longrightarrow> parsers atoi readFile r args \<noteq> Panic"
  by (cases r)
     (auto simp: parseHelpArgs_def parsePreRegisterArgs_def parseNewWalletArgs_def
        parseOpenWalletArgs_def parseRegisterArgs_def index_def checkIntArg_def
        split: prod.splits option.splits sum.splits)

text \<open>
  Claim C10. For every command name and argument list, \<open>ParseCmdArgs\<close> returns an
  unknown-command error when the command is not in the \<open>nArgs\<close> table, and an
  argument-count error (wrapping \<open>ErrArgs\<close>) when the number of arguments is outside
  the exact count or the range the table allows; in both cases the result is that
  error, whatever the command's parser would do. When the count is allowed, the result is
  the parser's, and the parser reads only indices below the length of the list: it
  does not panic. So \<open>ParseCmdArgs\<close> never panics.
\<close>

theorem ParseCmdArgs_checked:
  "(routeOf cmd = None \<longrightarrow>
      ParseCmdArgs routeOf atoi readFile cmd args = Return (NilVal, Some (UnknownCmd cmd)))
   \<and> (\<forall>r. routeOf cmd = Some r \<and> \<not> allowed (nArgs r) (int (length args)) \<longrightarrow>
         (\<exists>e. ParseCmdArgs routeOf atoi readFile cmd args = Return (NilVal, Some e)
              \<and> countError e \<and> unwrap e = Some ErrArgs))
   \<and> (\<forall>r. routeOf cmd = Some r \<and> allowed (nArgs r) (int (length args)) \<longrightarrow>
         ParseCmdArgs routeOf atoi readFile cmd args = parsers atoi readFile r args
         \<and> parsers atoi readFile r args \<noteq> Panic)
   \<and> ParseCmdArgs routeOf atoi readFile cmd args \<noteq> Panic"
proof (cases "routeOf cmd")
  case None
  then show ?thesis by (simp add: ParseCmdArgs_def)
next
  case (Some r)
  show ?thesis
  proof (cases "allowed (nArgs r) (int (length args))")
    case True
    with Some show ?thesis
      using parsers_no_panic [of r args atoi readFile]
      by (simp add: ParseCmdArgs_def checkNArgs_accepts)
  next
    case False
    then obtain e where "checkNArgs (int (length args)) (nArgs r) = Return (Some e)"
      "countError e" "unwrap e = Some ErrArgs"
      using checkNArgs_rejects by blast
    with Some False show ?thesis by (simp add: ParseCmdArgs_def)
  qed
qed

theorem ParseCmdArgs_checked_witness:
  "ParseCmdArgs [''openwallet'' \<mapsto> openWalletRoute] (\<lambda>a. (42, None)) (\<lambda>p. ([], None))
       ''nosuch'' [''pass''] = Return (NilVal, Some (UnknownCmd ''nosuch''))
   \<and> ParseCmdArgs [''openwallet'' \<mapsto> openWalletRoute] (\<lambda>a. (42, None)) (\<lambda>p. ([], None))
       ''openwallet'' [''pass''] = Return (NilVal, Some (WantedButGot 2 1))
   \<and> parsers (\<lambda>a. (42, None)) (\<lambda>p. ([], None)) openWalletRoute [''pass''] = Panic
   \<and> ParseCmdArgs [''openwallet'' \<mapsto> openWalletRoute] (\<lambda>a. (42, None)) (\<lambda>p. ([], None))
       ''openwallet'' [''pass'', ''42'']
       = Return (OpenWallet \<lparr>ow_AssetID = 42, ow_AppPass = ''pass''\<rparr>, None)"
proof -
  let ?R = "[''openwallet'' \<mapsto> openWalletRoute]"
  let ?A = "\<lambda>a::string. (42::int, None::string option)"
  let ?F = "\<lambda>p::string. ([]::string, None::string option)"
  have a: "ParseCmdArgs ?R ?A ?F ''nosuch'' [''pass''] = Return (NilVal, Some (UnknownCmd ''nosuch''))"
    using ParseCmdArgs_checked [of ?R "''nosuch''" ?A ?F "[''pass'']"] by simp
  have b: "ParseCmdArgs ?R ?A ?F ''openwallet'' [''pass''] = Return (NilVal, Some (WantedButGot 2 1))"
    by (simp add: ParseCmdArgs_def checkNArgs_def index_def)
  have c: "parsers ?A ?F openWalletRoute [''pass''] = Panic"
    by (simp add: parseOpenWalletArgs_def index_def)
  have d: "ParseCmdArgs ?R ?A ?F ''openwallet'' [''pass'', ''42'']
       = Return (OpenWallet \<lparr>ow_AssetID = 42, ow_AppPass = ''pass''\<rparr>, None)"
    using ParseCmdArgs_checked [of ?R "''openwallet''" ?A ?F "[''pass'', ''42'']"]
    by (simp add: parseOpenWalletArgs_def index_def checkIntArg_def)
  from a b c d show ?thesis by simp
qed

section \<open>Properties of the gateway\<close>

lemma Body_writeJSON: "Body (writeJSON w m) = Body w @ [JSON m]"
  by (simp add: writeJSON_def writeJSONWithStatus_def Write_def WriteHeader_def SetHeader_def)

lemma Status_writeJSON: "Status w = None \<Longrightarrow> Status (writeJSON w m) = Some StatusOK"
  by (simp add: writeJSON_def writeJSONWithStatus_def Write_def WriteHeader_def SetHeader_def)

lemma Body_http_Error: "Body (http_Error w msg code) = Body w @ [Text msg]"
  by (simp add: http_Error_def Write_def WriteHeader_def SetHeader_def)

lemma Status_http_Error: "Status w = None \<Longrightarrow> Status (http_Error w msg code) = Some code"
  by (simp add: http_Error_def Write_def WriteHeader_def SetHeader_def)

lemma Status_SetHeader: "Status (SetHeader w k v) = Status w"
  by (simp add: SetHeader_def)

lemma Body_SetHeader: "Body (SetHeader w k v) = Body w"
  by (simp add: SetHeader_def)

lemma ResponsePayload_eta:
  "\<lparr>Result = Result (p :: 'r ResponsePayload), Error = Error p\<rparr> = p"
  by (cases p) simp

lemma parseHTTPRequest_nonzero:
  "ID req \<noteq> 0 \<Longrightarrow>
     parseHTTPRequest routes unmarshal s w req =
       writeJSON w \<lparr>Type = Response, Route = [], ID = ID req,
                    Payload = handleRequest routes unmarshal s req\<rparr>"
  by (simp add: parseHTTPRequest_def NewResponse_def Let_def ResponsePayload_eta)

lemma parseHTTPRequest_zero:
  "ID req = 0 \<Longrightarrow>
     parseHTTPRequest routes unmarshal s w req =
       http_Error w ''error encoding response: id = 0 not allowed for a response''
         StatusInternalServerError"
  by (simp add: parseHTTPRequest_def NewResponse_def Let_def)

lemma handleJSON_request:
  "reqBody r = Some body \<Longrightarrow> jsonUnmarshal body = Some req \<Longrightarrow> Type req = Request \<Longrightarrow>
     fst (handleJSON routes unmarshal jsonUnmarshal s w r) =
       parseHTTPRequest routes unmarshal s
         (SetHeader (SetHeader w ''Connection'' ''close'') ''Content-Type'' ''application/json'') req"
  by (simp add: handleJSON_def Let_def)

lemma handleJSON_reply_body:
  assumes "reqBody r = Some body" and "jsonUnmarshal body = Some req"
    and "Type req = Request" and "ID req \<noteq> 0"
  shows "Body (fst (handleJSON routes unmarshal jsonUnmarshal s w r)) =
           Body w @ [JSON \<lparr>Type = Response, Route = [], ID = ID req,
                            Payload = handleRequest routes unmarshal s req\<rparr>]"
  using assms
  by (simp add: handleJSON_request parseHTTPRequest_nonzero Body_writeJSON Body_SetHeader)

lemma handleJSON_reply_status:
  assumes "reqBody r = Some body" and "jsonUnmarshal body = Some req"
    and "Type req = Request" and "ID req \<noteq> 0" and "Status w = None"
  shows "Status (fst (handleJSON routes unmarshal jsonUnmarshal s w r)) = Some StatusOK"
  using assms
  by (simp add: handleJSON_request parseHTTPRequest_nonzero Status_writeJSON Status_SetHeader)







lemma handleRequest_no_route:
  "Route req = [] \<or> routes (Route req) = None \<Longrightarrow>
     \<exists>msg. handleRequest routes unmarshal s req =
       \<lparr>Result = None, Error = Some \<lparr>Code = RPCUnknownRoute, Message = msg\<rparr>\<rparr>"
  by (auto simp: handleRequest_def NewError_def)

text \<open>
  Claim C2. For every request envelope whose route is empty or not in the route table,
  \<open>handleRequest\<close> returns a response payload whose error carries the unknown-route
  code and whose result is absent, and both callers hand this payload on in a Response
  envelope with the request's identifier (which is not 0, the reserved identifier): the
  HTTP handler writes it as the one chunk of the body, with status 200 and not as a
  plain-text HTTP error, and the WebSocket session is sent the same envelope.
\<close>

theorem unknown_route_structured_error:
  assumes "Route req = [] \<or> routes (Route req) = None"
  shows "\<exists>msg.
           handleRequest routes unmarshal s req =
             \<lparr>Result = None, Error = Some \<lparr>Code = RPCUnknownRoute, Message = msg\<rparr>\<rparr>
           \<and> (ID req \<noteq> 0 \<and> reqBody r = Some body \<and> jsonUnmarshal body = Some req
                \<and> Type req = Request \<longrightarrow>
                Body (fst (handleJSON routes unmarshal jsonUnmarshal s w r)) =
                  Body w @ [JSON \<lparr>Type = Response, Route = [], ID = ID req,
                    Payload = \<lparr>Result = None,
                      Error = Some \<lparr>Code = RPCUnknownRoute, Message = msg\<rparr>\<rparr>\<rparr>]
                \<and> (Status w = None \<longrightarrow>
                     Status (fst (handleJSON routes unmarshal jsonUnmarshal s w r)) =
                       Some StatusOK))
           \<and> (ID req \<noteq> 0 \<longrightarrow>
                wsRequest routes unmarshal s req =
                  Inr \<lparr>Type = Response, Route = [], ID = ID req,
                    Payload = \<lparr>Result = None,
                      Error = Some \<lparr>Code = RPCUnknownRoute, Message = msg\<rparr>\<rparr>\<rparr>)"
proof -
  from assms obtain msg where m: "handleRequest routes unmarshal s req =
       \<lparr>Result = None, Error = Some \<lparr>Code = RPCUnknownRoute, Message = msg\<rparr>\<rparr>"
    using handleRequest_no_route [of req routes unmarshal s] by blast
  have http: "ID req \<noteq> 0 \<and> reqBody r = Some body \<and> jsonUnmarshal body = Some req
                \<and> Type req = Request \<longrightarrow>
                Body (fst (handleJSON routes unmarshal jsonUnmarshal s w r)) =
                  Body w @ [JSON \<lparr>Type = Response, Route = [], ID = ID req,
                    Payload = \<lparr>Result = None,
                      Error = Some \<lparr>Code = RPCUnknownRoute, Message = msg\<rparr>\<rparr>\<rparr>]
                \<and> (Status w = None \<longrightarrow>
                     Status (fst (handleJSON routes unmarshal jsonUnmarshal s w r)) =
                       Some StatusOK)"
    using handleJSON_reply_body [of r body jsonUnmarshal req routes unmarshal s w]
      handleJSON_reply_status [of r body jsonUnmarshal req w routes unmarshal s]
    by (simp add: m)
  have ws: "ID req \<noteq> 0 \<longrightarrow>
                wsRequest routes unmarshal s req =
                  Inr \<lparr>Type = Response, Route = [], ID = ID req,
                    Payload = \<lparr>Result = None,
                      Error = Some \<lparr>Code = RPCUnknownRoute, Message = msg\<rparr>\<rparr>\<rparr>"
    by (simp add: wsRequest_def NewResponse_def m)
  from m http ws have
    "handleRequest routes unmarshal s req =
       \<lparr>Result = None, Error = Some \<lparr>Code = RPCUnknownRoute, Message = msg\<rparr>\<rparr>
     \<and> (ID req \<noteq> 0 \<and> reqBody r = Some body \<and> jsonUnmarshal body = Some req
          \<and> Type req = Request \<longrightarrow>
          Body (fst (handleJSON routes unmarshal jsonUnmarshal s w r)) =
            Body w @ [JSON \<lparr>Type = Response, Route = [], ID = ID req,
              Payload = \<lparr>Result = None,
                Error = Some \<lparr>Code = RPCUnknownRoute, Message = msg\<rparr>\<rparr>\<rparr>]
          \<and> (Status w = None \<longrightarrow>
               Status (fst (handleJSON routes unmarshal jsonUnmarshal s w r)) =
                 Some StatusOK))
     \<and> (ID req \<noteq> 0 \<longrightarrow>
          wsRequest routes unmarshal s req =
            Inr \<lparr>Type = Response, Route = [], ID = ID req,
              Payload = \<lparr>Result = None,
                Error = Some \<lparr>Code = RPCUnknownRoute, Message = msg\<rparr>\<rparr>\<rparr>)"
    by (intro conjI)
  then show ?thesis by (rule exI)
qed

theorem unknown_route_structured_error_witness:
  \<open>handleRequest [''version'' \<mapsto> (\<lambda>(s::unit) (p::unit). \<lparr>Result = Some (0::nat), Error = None\<rparr>)]
      (\<lambda>m. Some ()) () \<lparr>Type = Request, Route = ''nosuch'', ID = 7, Payload = ''{}''\<rparr>
    = \<lparr>Result = None, Error = Some \<lparr>Code = RPCUnknownRoute, Message = ''unknown command''\<rparr>\<rparr>
   \<and> Body (fst (handleJSON
        [''version'' \<mapsto> (\<lambda>(s::unit) (p::unit). \<lparr>Result = Some (0::nat), Error = None\<rparr>)]
        (\<lambda>m. Some ())
        [''{"id":7,"route":"nosuch","type":1,"payload":{}}'' \<mapsto>
           \<lparr>Type = Request, Route = ''nosuch'', ID = 7, Payload = ''{}''\<rparr>]
        () \<lparr>Header = Map.empty, Status = None, Body = []\<rparr>
        \<lparr>reqHeader = Map.empty, RemoteAddr = ''127.0.0.1'',
         reqBody = Some ''{"id":7,"route":"nosuch","type":1,"payload":{}}'',
         Close = False\<rparr>))
     = [JSON \<lparr>Type = Response, Route = [], ID = 7,
          Payload = \<lparr>Result = None,
            Error = Some \<lparr>Code = RPCUnknownRoute, Message = ''unknown command''\<rparr>\<rparr>\<rparr>]
   \<and> wsRequest
        [''version'' \<mapsto> (\<lambda>(s::unit) (p::unit). \<lparr>Result = Some (0::nat), Error = None\<rparr>)]
        (\<lambda>m. Some ()) () \<lparr>Type = Request, Route = ''nosuch'', ID = 7, Payload = ''{}''\<rparr>
     = Inr \<lparr>Type = Response, Route = [], ID = 7,
          Payload = \<lparr>Result = None,
            Error = Some \<lparr>Code = RPCUnknownRoute, Message = ''unknown command''\<rparr>\<rparr>\<rparr>\<close>
proof -
  let ?routes = \<open>[''version'' \<mapsto>
      (\<lambda>(s::unit) (p::unit). \<lparr>Result = Some (0::nat), Error = None\<rparr>)]\<close>
  let ?u = \<open>\<lambda>m::string Message. Some ()\<close>
  let ?req = \<open>\<lparr>Type = Request, Route = ''nosuch'', ID = 7::64 word, Payload = ''{}''\<rparr>\<close>
  let ?body = \<open>''{"id":7,"route":"nosuch","type":1,"payload":{}}''\<close>
  let ?j = \<open>[?body \<mapsto> ?req]\<close>
  let ?r = \<open>\<lparr>reqHeader = Map.empty, RemoteAddr = ''127.0.0.1'', reqBody = Some ?body,
             Close = False\<rparr>\<close>
  let ?w = \<open>\<lparr>Header = Map.empty, Status = None, Body = []\<rparr> :: nat ResponseWriter\<close>
  have h: \<open>Route ?req = [] \<or> ?routes (Route ?req) = None\<close> by simp
  note X = unknown_route_structured_error [where req = ?req and routes = ?routes
      and unmarshal = ?u and s = \<open>()\<close> and r = ?r and body = ?body and jsonUnmarshal = ?j
      and w = ?w]
  have hr: \<open>handleRequest ?routes ?u () ?req =
      \<lparr>Result = None, Error = Some \<lparr>Code = RPCUnknownRoute, Message = ''unknown command''\<rparr>\<rparr>\<close>
    by (simp add: handleRequest_def NewError_def)
  from X [OF h] hr show ?thesis by (auto simp: hr)
qed

lemma handleJSON_undecodable:
  "reqBody r = Some body \<Longrightarrow> jsonUnmarshal body = None \<Longrightarrow>
     fst (handleJSON routes unmarshal jsonUnmarshal s w r) =
       http_Error
         (SetHeader (SetHeader w ''Connection'' ''close'') ''Content-Type'' ''application/json'')
         ''JSON decode error'' StatusUnprocessableEntity"
  by (simp add: handleJSON_def Let_def)

lemma handleRequest_bad_params:
  "Route req \<noteq> [] \<Longrightarrow> routes (Route req) = Some h \<Longrightarrow> unmarshal req = None \<Longrightarrow>
     handleRequest routes unmarshal s req =
       \<lparr>Result = None,
        Error = Some \<lparr>Code = RPCParseError, Message = ''unable to unmarshal request''\<rparr>\<rparr>"
  by (simp add: handleRequest_def NewError_def)

lemma handleJSON_reply:
  assumes "reqBody r = Some body" and "jsonUnmarshal body = Some req"
    and "Type req = Request" and "ID req \<noteq> 0" and "Status w = None"
  shows "Body (fst (handleJSON routes unmarshal jsonUnmarshal s w r)) =
           Body w @ [JSON \<lparr>Type = Response, Route = [], ID = ID req,
                            Payload = handleRequest routes unmarshal s req\<rparr>]
         \<and> Status (fst (handleJSON routes unmarshal jsonUnmarshal s w r)) = Some StatusOK"
  using assms
  by (simp add: handleJSON_request parseHTTPRequest_nonzero Body_writeJSON Status_writeJSON
        Body_SetHeader Status_SetHeader)

text \<open>
  Claim C3 (amended). On the HTTP path an unknown route, or parameters that fail to
  decode, in a Request envelope with a nonzero identifier are answered with status 200
  and one Response envelope that has only the error field set (unknown-route and
  parse-error codes). A body that does not decode as an envelope is answered with the
  plain-text error "JSON decode error" and status 422, not with a Response envelope.
\<close>

theorem gateway_protocol_errors:
  assumes "Status w = None" and "reqBody r = Some body"
  shows "(jsonUnmarshal body = None \<longrightarrow>
            Body (fst (handleJSON routes unmarshal jsonUnmarshal s w r)) =
              Body w @ [Text ''JSON decode error'']
            \<and> Status (fst (handleJSON routes unmarshal jsonUnmarshal s w r)) =
                Some StatusUnprocessableEntity)
       \<and> (\<forall>req. jsonUnmarshal body = Some req \<and> Type req = Request \<and> ID req \<noteq> 0
              \<and> (Route req = [] \<or> routes (Route req) = None) \<longrightarrow>
            (\<exists>msg. Body (fst (handleJSON routes unmarshal jsonUnmarshal s w r)) =
               Body w @ [JSON \<lparr>Type = Response, Route = [], ID = ID req,
                 Payload = \<lparr>Result = None,
                   Error = Some \<lparr>Code = RPCUnknownRoute, Message = msg\<rparr>\<rparr>\<rparr>])
            \<and> Status (fst (handleJSON routes unmarshal jsonUnmarshal s w r)) = Some StatusOK)
       \<and> (\<forall>req h. jsonUnmarshal body = Some req \<and> Type req = Request \<and> ID req \<noteq> 0
              \<and> Route req \<noteq> [] \<and> routes (Route req) = Some h \<and> unmarshal req = None \<longrightarrow>
            Body (fst (handleJSON routes unmarshal jsonUnmarshal s w r)) =
               Body w @ [JSON \<lparr>Type = Response, Route = [], ID = ID req,
                 Payload = \<lparr>Result = None,
                   Error = Some \<lparr>Code = RPCParseError,
                                 Message = ''unable to unmarshal request''\<rparr>\<rparr>\<rparr>]
            \<and> Status (fst (handleJSON routes unmarshal jsonUnmarshal s w r)) = Some StatusOK)"
proof (intro conjI allI impI)
  assume "jsonUnmarshal body = None"
  with assms show "Body (fst (handleJSON routes unmarshal jsonUnmarshal s w r)) =
      Body w @ [Text ''JSON decode error'']"
    by (simp add: handleJSON_undecodable Body_http_Error Body_SetHeader)
next
  assume "jsonUnmarshal body = None"
  with assms show "Status (fst (handleJSON routes unmarshal jsonUnmarshal s w r)) =
      Some StatusUnprocessableEntity"
    by (simp add: handleJSON_undecodable Status_http_Error Status_SetHeader)
next
  fix req
  assume a: "jsonUnmarshal body = Some req \<and> Type req = Request \<and> ID req \<noteq> 0
      \<and> (Route req = [] \<or> routes (Route req) = None)"
  then obtain msg where m: "handleRequest routes unmarshal s req =
       \<lparr>Result = None, Error = Some \<lparr>Code = RPCUnknownRoute, Message = msg\<rparr>\<rparr>"
    using handleRequest_no_route [of req routes unmarshal s] by blast
  from a assms handleJSON_reply [of r body jsonUnmarshal req w routes unmarshal s]
  show "\<exists>msg. Body (fst (handleJSON routes unmarshal jsonUnmarshal s w r)) =
               Body w @ [JSON \<lparr>Type = Response, Route = [], ID = ID req,
                 Payload = \<lparr>Result = None,
                   Error = Some \<lparr>Code = RPCUnknownRoute, Message = msg\<rparr>\<rparr>\<rparr>]"
    by (simp add: m)
next
  fix req
  assume a: "jsonUnmarshal body = Some req \<and> Type req = Request \<and> ID req \<noteq> 0
      \<and> (Route req = [] \<or> routes (Route req) = None)"
  with assms handleJSON_reply [of r body jsonUnmarshal req w routes unmarshal s]
  show "Status (fst (handleJSON routes unmarshal jsonUnmarshal s w r)) = Some StatusOK"
    by simp
next
  fix req h
  assume a: "jsonUnmarshal body = Some req \<and> Type req = Request \<and> ID req \<noteq> 0
      \<and> Route req \<noteq> [] \<and> routes (Route req) = Some h \<and> unmarshal req = None"
  with assms handleJSON_reply [of r body jsonUnmarshal req w routes unmarshal s]
    handleRequest_bad_params [of req routes h unmarshal s]
  show "Body (fst (handleJSON routes unmarshal jsonUnmarshal s w r)) =
               Body w @ [JSON \<lparr>Type = Response, Route = [], ID = ID req,
                 Payload = \<lparr>Result = None,
                   Error = Some \<lparr>Code = RPCParseError,
                                 Message = ''unable to unmarshal request''\<rparr>\<rparr>\<rparr>]"
    by simp
next
  fix req h
  assume a: "jsonUnmarshal body = Some req \<and> Type req = Request \<and> ID req \<noteq> 0
      \<and> Route req \<noteq> [] \<and> routes (Route req) = Some h \<and> unmarshal req = None"
  with assms handleJSON_reply [of r body jsonUnmarshal req w routes unmarshal s]
  show "Status (fst (handleJSON routes unmarshal jsonUnmarshal s w r)) = Some StatusOK"
    by simp
qed

text \<open>The body \<open>{notjson\<close> gets a plain-text reply with status 422.\<close>

theorem gateway_malformed_envelope:
  \<open>Body (fst (handleJSON
      [''version'' \<mapsto> (\<lambda>s p. \<lparr>Result = Some (0::nat, 0::nat, 0::nat), Error = None\<rparr>)]
      (\<lambda>m. Some ())
      [''{"id":1,"route":"version","type":1,"payload":{}}'' \<mapsto>
         \<lparr>Type = Request, Route = ''version'', ID = 1, Payload = ''{}''\<rparr>]
      () \<lparr>Header = Map.empty, Status = None, Body = []\<rparr>
      \<lparr>reqHeader = Map.empty, RemoteAddr = ''127.0.0.1'',
       reqBody = Some ''{notjson'', Close = False\<rparr>))
   = [Text ''JSON decode error'']
   \<and> Status (fst (handleJSON
      [''version'' \<mapsto> (\<lambda>s p. \<lparr>Result = Some (0::nat, 0::nat, 0::nat), Error = None\<rparr>)]
      (\<lambda>m. Some ())
      [''{"id":1,"route":"version","type":1,"payload":{}}'' \<mapsto>
         \<lparr>Type = Request, Route = ''version'', ID = 1, Payload = ''{}''\<rparr>]
      () \<lparr>Header = Map.empty, Status = None, Body = []\<rparr>
      \<lparr>reqHeader = Map.empty, RemoteAddr = ''127.0.0.1'',
       reqBody = Some ''{notjson'', Close = False\<rparr>))
   = Some StatusUnprocessableEntity\<close>
  by (simp add: handleJSON_def Let_def Body_http_Error Status_http_Error Status_SetHeader
        Body_SetHeader)

theorem gateway_protocol_errors_witness:
  \<open>Body (fst (handleJSON
      [''version'' \<mapsto> (\<lambda>s (p::unit). \<lparr>Result = Some (0::nat, 0::nat, 0::nat), Error = None\<rparr>)]
      Map.empty
      [''{"id":5,"route":"nosuch","type":1,"payload":{}}'' \<mapsto>
         \<lparr>Type = Request, Route = ''nosuch'', ID = 5, Payload = ''{}''\<rparr>,
       ''{"id":6,"route":"version","type":1,"payload":7}'' \<mapsto>
         \<lparr>Type = Request, Route = ''version'', ID = 6, Payload = ''7''\<rparr>]
      () \<lparr>Header = Map.empty, Status = None, Body = []\<rparr>
      \<lparr>reqHeader = Map.empty, RemoteAddr = ''127.0.0.1'',
       reqBody = Some ''{"id":5,"route":"nosuch","type":1,"payload":{}}'', Close = False\<rparr>))
   = [JSON \<lparr>Type = Response, Route = [], ID = 5,
        Payload = \<lparr>Result = None,
          Error = Some \<lparr>Code = RPCUnknownRoute, Message = ''unknown command''\<rparr>\<rparr>\<rparr>]
   \<and> Body (fst (handleJSON
      [''version'' \<mapsto> (\<lambda>s (p::unit). \<lparr>Result = Some (0::nat, 0::nat, 0::nat), Error = None\<rparr>)]
      Map.empty
      [''{"id":5,"route":"nosuch","type":1,"payload":{}}'' \<mapsto>
         \<lparr>Type = Request, Route = ''nosuch'', ID = 5, Payload = ''{}''\<rparr>,
       ''{"id":6,"route":"version","type":1,"payload":7}'' \<mapsto>
         \<lparr>Type = Request, Route = ''version'', ID = 6, Payload = ''7''\<rparr>]
      () \<lparr>Header = Map.empty, Status = None, Body = []\<rparr>
      \<lparr>reqHeader = Map.empty, RemoteAddr = ''127.0.0.1'',
       reqBody = Some ''{"id":6,"route":"version","type":1,"payload":7}'', Close = False\<rparr>))
   = [JSON \<lparr>Type = Response, Route = [], ID = 6,
        Payload = \<lparr>Result = None,
          Error = Some \<lparr>Code = RPCParseError,
                        Message = ''unable to unmarshal request''\<rparr>\<rparr>\<rparr>]
   \<and> Status (fst (handleJSON
      [''version'' \<mapsto> (\<lambda>s (p::unit). \<lparr>Result = Some (0::nat, 0::nat, 0::nat), Error = None\<rparr>)]
      Map.empty
      [''{"id":5,"route":"nosuch","type":1,"payload":{}}'' \<mapsto>
         \<lparr>Type = Request, Route = ''nosuch'', ID = 5, Payload = ''{}''\<rparr>,
       ''{"id":6,"route":"version","type":1,"payload":7}'' \<mapsto>
         \<lparr>Type = Request, Route = ''version'', ID = 6, Payload = ''7''\<rparr>]
      () \<lparr>Header = Map.empty, Status = None, Body = []\<rparr>
      \<lparr>reqHeader = Map.empty, RemoteAddr = ''127.0.0.1'',
       reqBody = Some ''{"nojson'', Close = False\<rparr>))
   = Some StatusUnprocessableEntity\<close>
proof -
  let ?h = \<open>\<lambda>(s::unit) (p::unit). \<lparr>Result = Some (0::nat, 0::nat, 0::nat), Error = None\<rparr>\<close>
  let ?routes = \<open>[''version'' \<mapsto> ?h]\<close>
  let ?u = \<open>Map.empty :: string Message \<Rightarrow> unit option\<close>
  let ?b5 = \<open>''{"id":5,"route":"nosuch","type":1,"payload":{}}''\<close>
  let ?b6 = \<open>''{"id":6,"route":"version","type":1,"payload":7}''\<close>
  let ?r5 = \<open>\<lparr>Type = Request, Route = ''nosuch'', ID = 5::64 word, Payload = ''{}''\<rparr>\<close>
  let ?r6 = \<open>\<lparr>Type = Request, Route = ''version'', ID = 6::64 word, Payload = ''7''\<rparr>\<close>
  let ?j = \<open>[?b5 \<mapsto> ?r5, ?b6 \<mapsto> ?r6]\<close>
  let ?w = \<open>\<lparr>Header = Map.empty, Status = None, Body = []\<rparr> :: (nat \<times> nat \<times> nat) ResponseWriter\<close>
  let ?q = \<open>\<lambda>b. \<lparr>reqHeader = Map.empty, RemoteAddr = ''127.0.0.1'', reqBody = Some b,
                 Close = False\<rparr>\<close>
  have sw: \<open>Status ?w = None\<close> by simp
  note A = gateway_protocol_errors [where w = ?w and r = \<open>?q ?b5\<close> and body = ?b5
      and jsonUnmarshal = ?j and routes = ?routes and unmarshal = ?u and s = \<open>()\<close>, OF sw]
  note B = gateway_protocol_errors [where w = ?w and r = \<open>?q ?b6\<close> and body = ?b6
      and jsonUnmarshal = ?j and routes = ?routes and unmarshal = ?u and s = \<open>()\<close>, OF sw]
  note C = gateway_protocol_errors [where w = ?w and r = \<open>?q ''{"nojson''\<close>
      and body = \<open>''{"nojson''\<close>
      and jsonUnmarshal = ?j and routes = ?routes and unmarshal = ?u and s = \<open>()\<close>, OF sw]
  have a: \<open>Body (fst (handleJSON ?routes ?u ?j () ?w (?q ?b5))) =
      [JSON \<lparr>Type = Response, Route = [], ID = 5,
        Payload = \<lparr>Result = None,
          Error = Some \<lparr>Code = RPCUnknownRoute, Message = ''unknown command''\<rparr>\<rparr>\<rparr>]\<close>
    using A by (simp add: handleJSON_def Let_def parseHTTPRequest_def handleRequest_def
        NewResponse_def NewError_def Body_writeJSON Body_SetHeader)
  have b: \<open>Body (fst (handleJSON ?routes ?u ?j () ?w (?q ?b6))) =
      [JSON \<lparr>Type = Response, Route = [], ID = 6,
        Payload = \<lparr>Result = None,
          Error = Some \<lparr>Code = RPCParseError,
                        Message = ''unable to unmarshal request''\<rparr>\<rparr>\<rparr>]\<close>
    using B by simp
  have c: \<open>Status (fst (handleJSON ?routes ?u ?j () ?w (?q ''{"nojson''))) =
      Some StatusUnprocessableEntity\<close>
    using C by simp
  from a b c show ?thesis by simp
qed

section \<open>Properties of the constructor and the authentication\<close>















text \<open>
  Claim C4 (amended). When the user or the password of the configuration is empty,
  \<open>New\<close> does not fail for that reason: a server it returns has the zero value of
  \<open>authsha\<close>, and at run time \<open>authMiddleware\<close> rejects with status 401 every request
  that has no \<open>Authorization\<close> value and passes a request on only when the SHA-256
  of its first \<open>Authorization\<close> value is that zero value.
\<close>

theorem New_without_credentials:
  assumes \<open>User cfg = [] \<or> Pass cfg = []\<close> and \<open>fst (New ext fsys cfg) = Inr srv\<close>
  shows \<open>authsha srv = zeroSha
    \<and> authMiddleware ext srv next w r =
        (case reqHeader r ''Authorization'' of
           Some (a0 # rest) \<Rightarrow>
             if Sum256 ext a0 = zeroSha then next w r
             else (http_Error (SetHeader w ''WWW-Authenticate'' ''Basic realm="dex RPC"'')
                     ''Unauthorized'' StatusUnauthorized, r)
         | _ \<Rightarrow> (http_Error (SetHeader w ''WWW-Authenticate'' ''Basic realm="dex RPC"'')
                     ''Unauthorized'' StatusUnauthorized, r))\<close>
proof -
  have z: \<open>authsha srv = zeroSha\<close>
    using assms
    by (auto simp: New_def Let_def split: if_splits prod.splits option.splits sum.splits)
  show ?thesis
    by (auto simp: z authMiddleware_def Let_def split: option.splits list.splits)
qed

text \<open>With an empty user and a loadable pair on disk, \<open>New\<close> returns a server.\<close>

theorem New_empty_user_succeeds:
  "fst (New
      \<lparr>NewTLSCertPair = (\<lambda>c org t names. Inr (''CERT'', ''KEY'')), Now = 0,
       createFails = (\<lambda>p. False), X509KeyPair = (\<lambda>c k. Inr (c, k)),
       Sum256 = (\<lambda>s. replicate 32 1), EncodeToString = (\<lambda>s. s)\<rparr>
      [''rpc.cert'' \<mapsto> File \<lparr>contents = ''C0'', perm = perm_0644\<rparr>,
       ''rpc.key'' \<mapsto> File \<lparr>contents = ''K0'', perm = perm_0600\<rparr>]
      \<lparr>Core = (), Addr = ''127.0.0.1:5757'', User = '''', Pass = ''p'',
       Cert = ''rpc.cert'', Key = ''rpc.key''\<rparr>)
     = Inr \<lparr>core = (), addr = ''127.0.0.1:5757'',
            tlsConfig = \<lparr>Certificates = [(''C0'', ''K0'')], MinVersion = VersionTLS12\<rparr>,
            authsha = zeroSha, syncers = Map.empty, clients = Map.empty\<rparr>"
  by (simp add: New_def Let_def fileExists_def os_Stat_def LoadX509KeyPair_def ReadFile_def)

theorem New_without_credentials_witness:
  \<open>authsha \<lparr>core = (), addr = ''127.0.0.1:5757'',
            tlsConfig = \<lparr>Certificates = [(''C0'', ''K0'')], MinVersion = VersionTLS12\<rparr>,
            authsha = zeroSha, syncers = Map.empty, clients = Map.empty\<rparr> = zeroSha
   \<and> Status (fst (authMiddleware
        \<lparr>NewTLSCertPair = (\<lambda>c org t names. Inr (''CERT'', ''KEY'')), Now = 0,
         createFails = (\<lambda>p. False), X509KeyPair = (\<lambda>c k. Inr (c, k)),
         Sum256 = (\<lambda>s. replicate 32 1), EncodeToString = (\<lambda>s. s)\<rparr>
        \<lparr>core = (), addr = ''127.0.0.1:5757'',
            tlsConfig = \<lparr>Certificates = [(''C0'', ''K0'')], MinVersion = VersionTLS12\<rparr>,
            authsha = zeroSha, syncers = Map.empty, clients = Map.empty\<rparr>
        (\<lambda>w r. (w, r))
        (\<lparr>Header = Map.empty, Status = None, Body = []\<rparr> :: unit ResponseWriter)
        \<lparr>reqHeader = [''Authorization'' \<mapsto> [''Basic dTpw'']], RemoteAddr = ''127.0.0.1'',
         reqBody = Some ''x'', Close = False\<rparr>))
     = Some StatusUnauthorized\<close>
proof -
  let ?ext = \<open>\<lparr>NewTLSCertPair = (\<lambda>(c::curve) (org::string) (t::int) (names::string list).
                  Inr (''CERT'', ''KEY'') :: string + (string \<times> string)), Now = 0,
       createFails = (\<lambda>p::string. False),
       X509KeyPair = (\<lambda>(c::string) (k::string). Inr (c, k) :: string + (string \<times> string)),
       Sum256 = (\<lambda>s::string. replicate 32 (1::8 word)), EncodeToString = (\<lambda>s::string. s)\<rparr>\<close>
  let ?fs = \<open>[''rpc.cert'' \<mapsto> File \<lparr>contents = ''C0'', perm = perm_0644\<rparr>,
       ''rpc.key'' \<mapsto> File \<lparr>contents = ''K0'', perm = perm_0600\<rparr>]\<close>
  let ?cfg = \<open>\<lparr>Core = (), Addr = ''127.0.0.1:5757'', User = ''''::string, Pass = ''p'',
       Cert = ''rpc.cert'', Key = ''rpc.key''\<rparr>\<close>
  let ?srv = \<open>\<lparr>core = (), addr = ''127.0.0.1:5757'',
            tlsConfig = \<lparr>Certificates = [(''C0'', ''K0'')], MinVersion = VersionTLS12\<rparr>,
            authsha = zeroSha, syncers = Map.empty, clients = Map.empty\<rparr>\<close>
  let ?w = \<open>\<lparr>Header = Map.empty, Status = None, Body = []\<rparr> :: unit ResponseWriter\<close>
  let ?r = \<open>\<lparr>reqHeader = [''Authorization'' \<mapsto> [''Basic dTpw'']], RemoteAddr = ''127.0.0.1'',
         reqBody = Some ''x'', Close = False\<rparr>\<close>
  let ?next = \<open>\<lambda>(w::unit ResponseWriter) (r::HttpRequest). (w, r)\<close>
  have a: \<open>User ?cfg = [] \<or> Pass ?cfg = []\<close> by simp
  have b: \<open>fst (New ?ext ?fs ?cfg) = Inr ?srv\<close>
    by (simp add: New_def Let_def fileExists_def os_Stat_def LoadX509KeyPair_def ReadFile_def)
  note T = New_without_credentials [OF a b, of ?next ?w ?r]
  have z: \<open>replicate 32 (1::8 word) \<noteq> zeroSha\<close>
    by (simp add: zeroSha_def replicate_eq_replicate)
  from T z show ?thesis
    by (simp add: http_Error_def Write_def WriteHeader_def SetHeader_def)
qed

section \<open>Properties of the market syncer\<close>

lemma syncLoop_no_close: "FeedClose \<notin> set (snd (syncLoop nn es))"
  by (induction nn es rule: syncLoop.induct) (auto split: sum.splits prod.splits)

lemma syncLoop_terminal:
  "e \<in> set es \<Longrightarrow> terminal nn e \<Longrightarrow> fst (syncLoop nn es) \<noteq> Blocked"
  by (induction nn es rule: syncLoop.induct) (auto split: sum.splits prod.splits)

lemma syncLoop_blocked:
  "fst (syncLoop nn es) = Blocked \<Longrightarrow> \<forall>e \<in> set es. \<not> terminal nn e"
  using syncLoop_terminal by blast

lemma Run_ended:
  "fst (syncLoop nn es) \<noteq> Blocked \<Longrightarrow>
     Run nn es = (fst (syncLoop nn es), snd (syncLoop nn es) @ [FeedClose])"
  by (cases "syncLoop nn es"; cases "fst (syncLoop nn es)") (auto simp: Run_def)

lemma Run_blocked:
  "fst (syncLoop nn es) = Blocked \<Longrightarrow> Run nn es = (Blocked, snd (syncLoop nn es))"
  by (cases "syncLoop nn es") (auto simp: Run_def)

lemma count_list_absent: "x \<notin> set xs \<Longrightarrow> count_list xs x = 0"
  by (induction xs) auto

text \<open>
  Claim C6. For every run of a market syncer: when the run has ended (by a return or a
  panic), \<open>feed.Close\<close> was called exactly once, as the last action of the run; while
  the syncer is still blocked in its \<open>select\<close> it has not been called; and every
  terminal event (context cancellation, a send failure, a value that does not encode, the
  nil value of a closed feed) ends the run. The release is the one deferred step of
  \<open>Run\<close>, not a call in each branch of the loop.
\<close>

theorem Run_closes_feed_once:
  "(fst (Run newNotification es) \<noteq> Blocked \<longrightarrow>
      count_list (snd (Run newNotification es)) FeedClose = 1
      \<and> last (snd (Run newNotification es)) = FeedClose)
   \<and> (fst (Run newNotification es) = Blocked \<longrightarrow>
      FeedClose \<notin> set (snd (Run newNotification es)))
   \<and> ((\<exists>e \<in> set es. terminal newNotification e) \<longrightarrow>
      fst (Run newNotification es) \<noteq> Blocked)"
proof (cases "fst (syncLoop newNotification es) = Blocked")
  case True
  then show ?thesis
    using syncLoop_no_close [of newNotification es] syncLoop_blocked [of newNotification es]
    by (simp add: Run_blocked)
next
  case False
  then show ?thesis
    using syncLoop_no_close [of newNotification es]
    by (simp add: Run_ended count_list_absent)
qed

theorem Run_closes_feed_once_witness:
  "Run (\<lambda>u. if u = ''bad'' then Inl ''cannot encode'' else Inr (''note:'' @ u))
      [Update (Some ''a'') True, Update (Some ''b'') False, Update (Some ''c'') True]
     = (Returned, [Send ''note:a'', Send ''note:b'', Log ''send error. ending market feed'',
                   FeedClose])
   \<and> Run (\<lambda>u. if u = ''bad'' then Inl ''cannot encode'' else Inr (''note:'' @ u))
      [Update (Some ''a'') True, CtxDone, Update (Some ''c'') True]
     = (Returned, [Send ''note:a'', FeedClose])
   \<and> Run (\<lambda>u. if u = ''bad'' then Inl ''cannot encode'' else Inr (''note:'' @ u))
      [Update (Some ''a'') True, Update None True]
     = (Panicked, [Send ''note:a'', FeedClose])
   \<and> Run (\<lambda>u. if u = ''bad'' then Inl ''cannot encode'' else Inr (''note:'' @ u))
      [Update (Some ''a'') True]
     = (Blocked, [Send ''note:a''])
   \<and> count_list (snd (Run (\<lambda>u. if u = ''bad'' then Inl ''cannot encode'' else Inr (''note:'' @ u))
      [Update (Some ''a'') True, Update (Some ''b'') False, Update (Some ''c'') True]))
      FeedClose = 1"
proof -
  let ?nn = "\<lambda>u::string. if u = ''bad'' then Inl ''cannot encode'' else (Inr (''note:'' @ u) :: string + string)"
  let ?es = "[Update (Some ''a'') True, Update (Some ''b'') False, Update (Some ''c'') True]"
  have r: "Run ?nn ?es =
      (Returned, [Send ''note:a'', Send ''note:b'', Log ''send error. ending market feed'',
                   FeedClose])"
    by (simp add: Run_def)
  have c: "count_list (snd (Run ?nn ?es)) FeedClose = 1"
    using Run_closes_feed_once [of ?nn ?es] by (simp add: r)
  have d: "Run ?nn [Update (Some ''a'') True, CtxDone, Update (Some ''c'') True]
     = (Returned, [Send ''note:a'', FeedClose])"
    by (simp add: Run_def)
  have p: "Run ?nn [Update (Some ''a'') True, Update None True]
     = (Panicked, [Send ''note:a'', FeedClose])"
    by (simp add: Run_def)
  have b: "Run ?nn [Update (Some ''a'') True] = (Blocked, [Send ''note:a''])"
    by (simp add: Run_def)
  from r c d p b show ?thesis by simp
qed


section \<open>Properties of the transport\<close>

lemma readFrame_connected: "connected (readFrame decode c frame) = connected c"
  by (simp add: readFrame_def split: option.splits MessageType.splits)

lemma readPump_frames_connected:
  "connected (readPump decode c (map Frame frames)) = connected c"
  by (induction frames arbitrary: c) (simp_all add: readFrame_connected)

text \<open>
  Claim C8. On an established connection, a frame that fails to parse is dropped and
  does not end the connection: the well-formed frame that follows is delivered, to the
  message-source stream when it is a Request or a Notification, to the pending handler
  of its identifier (which is removed from the table) when it is a Response. No sequence
  of frames ends the connection.
\<close>

theorem readPump_survives_malformed_frame:
  assumes "decode bad = None" and "decode good = Some m" and "connected c"
  shows "connected (readPump decode c [Frame bad, Frame good])
    \<and> (Type m = Request \<or> Type m = Notification \<longrightarrow>
         readCh (readPump decode c [Frame bad, Frame good]) = readCh c @ [m])
    \<and> (\<forall>h. Type m = Response \<and> respHandlers c (ID m) = Some h \<longrightarrow>
         handled (readPump decode c [Frame bad, Frame good]) = handled c @ [(h, m)]
         \<and> respHandlers (readPump decode c [Frame bad, Frame good]) (ID m) = None)
    \<and> (\<forall>frames. connected (readPump decode c (map Frame frames)))"
  using assms
  by (auto simp: readFrame_def readPump_frames_connected split: MessageType.splits option.splits)

theorem readPump_survives_malformed_frame_witness:
  "connected (readPump [''request-1'' \<mapsto> \<lparr>Type = Request, Route = ''match'', ID = 1, Payload = ''m''\<rparr>]
      \<lparr>rID = 0, connected = True, respHandlers = Map.empty, readCh = [], handled = [],
       dropped = []\<rparr> [Frame ''{notjson'', Frame ''request-1''])
   \<and> readCh (readPump [''request-1'' \<mapsto> \<lparr>Type = Request, Route = ''match'', ID = 1, Payload = ''m''\<rparr>]
      \<lparr>rID = 0, connected = True, respHandlers = Map.empty, readCh = [], handled = [],
       dropped = []\<rparr> [Frame ''{notjson'', Frame ''request-1''])
     = [\<lparr>Type = Request, Route = ''match'', ID = 1, Payload = ''m''\<rparr>]"
proof -
  let ?m = "\<lparr>Type = Request, Route = ''match'', ID = 1::64 word, Payload = ''m''\<rparr>"
  let ?d = "[''request-1'' \<mapsto> ?m]"
  let ?c = "\<lparr>rID = 0::64 word, connected = True, respHandlers = (Map.empty :: 64 word \<rightharpoonup> unit),
       readCh = ([] :: string Message list), handled = [], dropped = []\<rparr>"
  have a: "?d ''{notjson'' = None" by simp
  have b: "?d ''request-1'' = Some ?m" by simp
  have c: "connected ?c" by simp
  from readPump_survives_malformed_frame [OF a b c] show ?thesis by (simp add: readFrame_def)
qed

lemma callNextID_values:
  "fst (callNextID n c) = map (\<lambda>i. rID c + word_of_nat (Suc i)) [0..<n]"
proof (induction n arbitrary: c)
  case 0
  then show ?case by simp
next
  case (Suc n)
  have "fst (callNextID (Suc n) c) = (rID c + 1) # fst (callNextID n (c\<lparr>rID := rID c + 1\<rparr>))"
    by (simp add: NextID_def split: prod.splits)
  also have "\<dots> = (rID c + 1) # map (\<lambda>i. rID c + 1 + word_of_nat (Suc i)) [0..<n]"
    by (simp add: Suc)
  also have "\<dots> = map (\<lambda>i. rID c + word_of_nat (Suc i)) [0..<Suc n]"
    by (simp only: map_upt_Suc) (simp add: add.assoc)
  finally show ?case .
qed

lemma callNextID_from_zero:
  "rID c = 0 \<Longrightarrow> fst (callNextID n c) = map word_of_nat [1..<Suc n]"
proof -
  assume z: "rID c = 0"
  have "map (\<lambda>i. (word_of_nat (Suc i) :: 64 word)) [0..<n] = map word_of_nat (map Suc [0..<n])"
    by (simp only: map_map comp_def)
  also have "\<dots> = map word_of_nat [1..<Suc n]"
    by (simp only: map_Suc_upt One_nat_def)
  finally show ?thesis using z by (simp only: callNextID_values add_0_left)
qed

lemma word64_of_nat_inj:
  "i < 2 ^ 64 \<Longrightarrow> j < 2 ^ 64 \<Longrightarrow> (word_of_nat i :: 64 word) = word_of_nat j \<Longrightarrow> i = j"
proof -
  assume i: "i < 2 ^ 64" and j: "j < 2 ^ 64" and e: "(word_of_nat i :: 64 word) = word_of_nat j"
  from e have "unat (word_of_nat i :: 64 word) = unat (word_of_nat j :: 64 word)" by simp
  then have "i mod 2 ^ 64 = j mod 2 ^ 64" by (simp add: unat_of_nat)
  with i j show "i = j" by simp
qed

text \<open>
  Claim C9. Starting from a fresh counter, \<open>n\<close> calls of \<open>NextID\<close> (for \<open>n\<close> below
  \<open>2 ^ 64\<close>, the range of the 64-bit counter) return the identifiers \<open>1, 2, ..., n\<close>:
  \<open>n\<close> distinct identifiers, none of them 0; the first call returns 1 and the second 2.
  Concurrent calls are atomic increments, so they take effect in some order, which is
  the order of the list.
\<close>

theorem NextID_distinct_nonzero:
  assumes "rID c = 0" and "n < 2 ^ 64"
  shows "fst (callNextID n c) = map word_of_nat [1..<Suc n]
    \<and> length (fst (callNextID n c)) = n
    \<and> distinct (fst (callNextID n c))
    \<and> 0 \<notin> set (fst (callNextID n c))"
proof -
  have v: "fst (callNextID n c) = map word_of_nat [1..<Suc n]"
    using assms(1) by (rule callNextID_from_zero)
  have inj: "inj_on (word_of_nat :: nat \<Rightarrow> 64 word) (set [1..<Suc n])"
    using assms(2) by (auto intro!: inj_onI word64_of_nat_inj)
  have d: "distinct (map (word_of_nat :: nat \<Rightarrow> 64 word) [1..<Suc n])"
    using inj by (simp add: distinct_map)
  have z: "(0 :: 64 word) \<notin> set (map word_of_nat [1..<Suc n])"
  proof
    assume "(0 :: 64 word) \<in> set (map word_of_nat [1..<Suc n])"
    then obtain i where i: "1 \<le> i" "i \<le> n" "(word_of_nat i :: 64 word) = 0" by auto
    with assms(2) have "0 < i" "i < 2 ^ LENGTH(64)" by simp_all
    then have "(word_of_nat i :: 64 word) \<noteq> 0" by (rule of_nat_neq_0)
    with i show False by simp
  qed
  from v d z show ?thesis by simp
qed

theorem NextID_distinct_nonzero_witness:
  "fst (callNextID 3 \<lparr>rID = 0, connected = True, respHandlers = (Map.empty :: 64 word \<rightharpoonup> unit), readCh = ([] :: string Message list),
        handled = [], dropped = []\<rparr>) = [1, 2, 3]
   \<and> distinct (fst (callNextID 3 \<lparr>rID = 0, connected = True, respHandlers = (Map.empty :: 64 word \<rightharpoonup> unit),
        readCh = ([] :: string Message list), handled = [], dropped = []\<rparr>))
   \<and> 0 \<notin> set (fst (callNextID 3 \<lparr>rID = 0, connected = True, respHandlers = (Map.empty :: 64 word \<rightharpoonup> unit),
        readCh = ([] :: string Message list), handled = [], dropped = []\<rparr>))"
proof -
  let ?c = "\<lparr>rID = 0::64 word, connected = True, respHandlers = (Map.empty :: 64 word \<rightharpoonup> unit),
       readCh = ([] :: string Message list), handled = [], dropped = []\<rparr>"
  have a: "rID ?c = 0" by simp
  have b: "(3::nat) < 2 ^ 64" by simp
  have e: "fst (callNextID 3 ?c) = [1, 2, 3]"
    by (simp add: numeral_3_eq_3 NextID_def)
  from NextID_distinct_nonzero [OF a b]
  have "distinct (fst (callNextID 3 ?c)) \<and> 0 \<notin> set (fst (callNextID 3 ?c))"
    by blast
  with e show ?thesis by blast
qed

end
